theory Spec2Isabelle
  imports Main
begin

section \<open>Python strings\<close>

text \<open>
  A Python \<open>str\<close> is a sequence of Unicode code points. A code point is a natural
  number here, so that the whitespace and line-boundary characters beyond Latin-1 that
  \<open>str.rstrip\<close> and \<open>str.splitlines\<close> recognise are part of the model. A literal of
  the script is written \<open>lit ''...''\<close>.
\<close>

type_synonym str = "nat list"

definition lit :: "string \<Rightarrow> str" where
  "lit cs = map of_char cs"

text \<open>\<open>str.isspace\<close> on one code point: the characters \<open>str.rstrip()\<close> removes.\<close>

definition isspace :: "nat \<Rightarrow> bool" where
  "isspace c \<longleftrightarrow>
     (9 \<le> c \<and> c \<le> 13) \<or> (28 \<le> c \<and> c \<le> 32) \<or> c = 133 \<or> c = 160 \<or> c = 5760
     \<or> (8192 \<le> c \<and> c \<le> 8202) \<or> c = 8232 \<or> c = 8233 \<or> c = 8239 \<or> c = 8287
     \<or> c = 12288"

text \<open>The line boundaries of \<open>str.splitlines\<close>.\<close>

definition islinebreak :: "nat \<Rightarrow> bool" where
  "islinebreak c \<longleftrightarrow>
     (10 \<le> c \<and> c \<le> 13) \<or> (28 \<le> c \<and> c \<le> 30) \<or> c = 133 \<or> c = 8232 \<or> c = 8233"

text \<open>
  \<open>s.rstrip()\<close>: the index moves down from the end of \<open>s\<close> while the character before
  it is whitespace; the result is the slice up to that index.
\<close>

definition rstrip :: "str \<Rightarrow> str" where
  "rstrip s = rev (dropWhile isspace (rev s))"

text \<open>\<open>s.rstrip(chars)\<close>: the same with membership in \<open>chars\<close> in place of whitespace.\<close>

definition rstrip_chars :: "str \<Rightarrow> str \<Rightarrow> str" where
  "rstrip_chars s chars = rev (dropWhile (\<lambda>c. c \<in> set chars) (rev s))"

definition startswith :: "str \<Rightarrow> str \<Rightarrow> bool" where
  "startswith s p \<longleftrightarrow> take (length p) s = p"

definition endswith :: "str \<Rightarrow> str \<Rightarrow> bool" where
  "endswith s p \<longleftrightarrow> length p \<le> length s \<and> drop (length s - length p) s = p"

text \<open>
  \<open>s.splitlines()\<close>: while characters remain, the line runs up to the next line
  boundary; the boundary is consumed (\<open>\r\n\<close> as one boundary) and not kept. A text that
  ends in a boundary has no empty last line, and the empty text has no line at all.
\<close>

function splitlines :: "str \<Rightarrow> str list" where
  "splitlines s =
     (if s = [] then []
      else
        let line = takeWhile (\<lambda>c. \<not> islinebreak c) s;
            rest = dropWhile (\<lambda>c. \<not> islinebreak c) s
        in line #
           (case rest of
              [] \<Rightarrow> []
            | c # r \<Rightarrow>
                (case r of
                   [] \<Rightarrow> []
                 | d # r' \<Rightarrow> if c = 13 \<and> d = 10 then splitlines r' else splitlines r)))"
  by pat_completeness auto
termination
proof (relation "measure length")
  show "wf (measure length)" by simp
next
  fix s :: str and line rest c r d r'
  assume "rest = dropWhile (\<lambda>c. \<not> islinebreak c) s" and "rest = c # r" and "r = d # r'"
  then have "length (c # d # r') \<le> length s"
    by (metis length_dropWhile_le)
  then show "(r', s) \<in> measure length" by simp
next
  fix s :: str and line rest c r d r'
  assume "rest = dropWhile (\<lambda>c. \<not> islinebreak c) s" and "rest = c # r" and "r = d # r'"
  then have "length (c # r) \<le> length s"
    by (metis length_dropWhile_le)
  then show "(r, s) \<in> measure length" by simp
qed

declare splitlines.simps [simp del]

text \<open>\<open>s.split(sep)\<close> for a separator of one character; \<open>acc\<close> is the piece being read.\<close>

fun split_acc :: "nat \<Rightarrow> str \<Rightarrow> str \<Rightarrow> str list" where
  "split_acc c acc [] = [rev acc]"
| "split_acc c acc (x # xs) =
     (if x = c then rev acc # split_acc c [] xs else split_acc c (x # acc) xs)"

definition split :: "str \<Rightarrow> nat \<Rightarrow> str list" where
  "split s c = split_acc c [] s"

text \<open>\<open>sep.join(parts)\<close>.\<close>

fun str_join :: "str \<Rightarrow> str list \<Rightarrow> str" where
  "str_join sep [] = []"
| "str_join sep [p] = p"
| "str_join sep (p # q # ps) = p @ sep @ str_join sep (q # ps)"

section \<open>Paths (\<open>os.path\<close> on POSIX)\<close>

definition isabs :: "str \<Rightarrow> bool" where
  "isabs s = startswith s (lit ''/'')"

text \<open>\<open>os.path.join(a, b)\<close>.\<close>

definition join :: "str \<Rightarrow> str \<Rightarrow> str" where
  "join a b =
     (if startswith b (lit ''/'') then b
      else if a = [] \<or> endswith a (lit ''/'') then a @ b
      else a @ lit ''/'' @ b)"

text \<open>
  \<open>os.path.dirname(p)\<close>: the head is \<open>p\<close> up to and including its last slash; trailing
  slashes are stripped from it unless it consists of slashes only.
\<close>

definition dirname :: "str \<Rightarrow> str" where
  "dirname p =
     (let head = rev (dropWhile (\<lambda>c. c \<noteq> 47) (rev p))
      in if head \<noteq> [] \<and> head \<noteq> replicate (length head) 47
         then rstrip_chars head (lit ''/'') else head)"

text \<open>One round of the loop of \<open>os.path.normpath\<close> over the components, for the component \<open>c\<close>.\<close>

definition norm_step :: "nat \<Rightarrow> str list \<Rightarrow> str \<Rightarrow> str list" where
  "norm_step initial_slashes new_comps c =
     (if c = [] \<or> c = lit ''.'' then new_comps
      else if c \<noteq> lit ''..'' \<or> (initial_slashes = 0 \<and> new_comps = [])
              \<or> (new_comps \<noteq> [] \<and> last new_comps = lit ''..'')
      then new_comps @ [c]
      else if new_comps \<noteq> [] then butlast new_comps
      else new_comps)"

definition normpath :: "str \<Rightarrow> str" where
  "normpath path =
     (if path = [] then lit ''.''
      else
        let initial_slashes =
              (if startswith path (lit ''/'')
               then (if startswith path (lit ''//'') \<and> \<not> startswith path (lit ''///'')
                     then 2 else 1)
               else (0::nat));
            comps = foldl (norm_step initial_slashes) [] (split path 47);
            joined = str_join (lit ''/'') comps;
            path' = (if initial_slashes \<noteq> 0 then replicate initial_slashes 47 @ joined
                     else joined)
        in if path' = [] then lit ''.'' else path')"

text \<open>\<open>os.path.abspath(path)\<close>, with the value of \<open>os.getcwd()\<close> as a parameter.\<close>

definition abspath :: "str \<Rightarrow> str \<Rightarrow> str" where
  "abspath getcwd path = normpath (if \<not> isabs path then join getcwd path else path)"

section \<open>The file system and the process environment\<close>

text \<open>
  The file system is a tree without symbolic links. A regular file holds the text a
  text-mode \<open>read()\<close> delivers (decoding and newline translation belong to the runtime
  below \<open>open\<close>); \<open>Unreadable\<close> is a regular file the process may not open for
  reading. The entries of a directory are in the order a listing returns them.
\<close>

datatype node = File str | Unreadable | Dir "(str \<times> node) list"

record env =
  root :: node
  cwd :: str
  script_file :: str

datatype errno = ENOENT | ENOTDIR

text \<open>
  Path lookup as the kernel does it, component by component: \<open>anc\<close> are the directories
  above the current one, nearest first.
\<close>

fun lookup :: "node list \<Rightarrow> node \<Rightarrow> str list \<Rightarrow> errno + node" where
  "lookup anc cur [] = Inr cur"
| "lookup anc (Dir es) (c # cs) =
     (if c = [] \<or> c = lit ''.'' then lookup anc (Dir es) cs
      else if c = lit ''..'' then
        (case anc of [] \<Rightarrow> lookup [] (Dir es) cs | a # as \<Rightarrow> lookup as a cs)
      else
        (case map_of es c of
           None \<Rightarrow> Inl ENOENT
         | Some n \<Rightarrow> lookup (Dir es # anc) n cs))"
| "lookup anc cur (c # cs) = Inl ENOTDIR"

text \<open>A relative path is looked up from the working directory, an absolute one from the root.\<close>

definition stat :: "env \<Rightarrow> str \<Rightarrow> errno + node" where
  "stat e p =
     (if p = [] then Inl ENOENT
      else lookup [] (root e) (split (if isabs p then p else cwd e @ lit ''/'' @ p) 47))"

datatype error =
    FileNotFoundError str
  | NotADirectoryError str
  | IsADirectoryError str
  | PermissionError str

text \<open>\<open>with open(p) as f: f.read()\<close>: the text of the file, or the error \<open>open\<close> raises.\<close>

definition read_text :: "env \<Rightarrow> str \<Rightarrow> error + str" where
  "read_text e p =
     (case stat e p of
        Inl ENOENT \<Rightarrow> Inl (FileNotFoundError p)
      | Inl ENOTDIR \<Rightarrow> Inl (NotADirectoryError p)
      | Inr (File text) \<Rightarrow> Inr text
      | Inr Unreadable \<Rightarrow> Inl (PermissionError p)
      | Inr (Dir es) \<Rightarrow> Inl (IsADirectoryError p))"

section \<open>Package discovery (\<open>setuptools.find_packages\<close>)\<close>

text \<open>
  \<open>fnmatch.fnmatchcase(name, pat)\<close> for patterns made of literal characters, \<open>*\<close>
  (code point 42: any run of characters) and \<open>?\<close> (63: any one character). Bracket
  expressions are left out: no pattern that reaches the finder from this script has one.
\<close>

fun fnmatchcase :: "str \<Rightarrow> str \<Rightarrow> bool" where
  "fnmatchcase [] [] = True"
| "fnmatchcase (c # cs) [] = False"
| "fnmatchcase [] (p # ps) = (p = 42 \<and> fnmatchcase [] ps)"
| "fnmatchcase (c # cs) (p # ps) =
     (if p = 42 then fnmatchcase (c # cs) ps \<or> fnmatchcase cs (p # ps)
      else if p = 63 then fnmatchcase cs ps
      else p = c \<and> fnmatchcase cs ps)"

text \<open>A \<open>_Filter\<close> is its list of patterns; calling it asks whether any pattern matches.\<close>

definition filter_call :: "str list \<Rightarrow> str \<Rightarrow> bool" where
  "filter_call patterns item = list_ex (fnmatchcase item) patterns"

text \<open>\<open>PackageFinder._looks_like_package\<close>: the directory holds a regular file \<open>__init__.py\<close>.\<close>

definition looks_like_package :: "node \<Rightarrow> bool" where
  "looks_like_package n =
     (case n of
        Dir es \<Rightarrow>
          (case map_of es (lit ''__init__.py'') of
             Some (File t) \<Rightarrow> True
           | Some Unreadable \<Rightarrow> True
           | _ \<Rightarrow> False)
      | _ \<Rightarrow> False)"

text \<open>The dotted name of the directory \<open>d\<close> inside the package \<open>parent\<close> (empty at the top).\<close>

definition package_name :: "str \<Rightarrow> str \<Rightarrow> str" where
  "package_name parent d = (if parent = [] then d else parent @ lit ''.'' @ d)"

text \<open>
  \<open>PackageFinder._find_iter\<close> over \<open>os.walk\<close>, top down. For the directory being
  visited, \<open>valid\<close> are its sub-directories that pass the validity test, \<open>yielded\<close> the
  names the loop yields, and \<open>dirs\<close> the sub-directories the loop leaves for the walk to
  descend into, which it does after the loop, in order.
\<close>

function find_iter :: "str list \<Rightarrow> str list \<Rightarrow> str \<Rightarrow> (str \<times> node) list \<Rightarrow> str list" where
  "find_iter exclude include parent es =
     (let valid = filter (\<lambda>(d, n). 46 \<notin> set d \<and> looks_like_package n) es;
          yielded = map (\<lambda>(d, n). package_name parent d)
                      (filter (\<lambda>(d, n). filter_call include (package_name parent d)
                                        \<and> \<not> filter_call exclude (package_name parent d)) valid);
          dirs = filter (\<lambda>(d, n). \<not> (package_name parent d @ lit ''*'' \<in> set exclude
                                      \<or> package_name parent d @ lit ''.*'' \<in> set exclude)) valid
      in yielded @
         concat (map (\<lambda>(d, n). case n of
                                  Dir sub \<Rightarrow> find_iter exclude include (package_name parent d) sub
                                | _ \<Rightarrow> []) dirs))"
  by pat_completeness auto

termination
proof -
  have less: "size_list (size_prod (\<lambda>_. 0) size) sub < size_list (size_prod (\<lambda>_. 0) size) es"
    if "(d, Dir sub) \<in> set es" for d :: str and sub es
    using that by (induction es) auto
  show ?thesis
    by (relation "measure (\<lambda>(exclude, include, parent, es).
                    size_list (size_prod (\<lambda>_. 0) size) es)")
       (auto dest: less)
qed

declare find_iter.simps [simp del]

text \<open>
  \<open>find_packages(exclude=...)\<close>: \<open>where\<close> is \<open>'.'\<close>, the include filter is \<open>*\<close>, and
  the finder always excludes \<open>ez_setup\<close> and \<open>*__pycache__\<close> besides. A walk of something
  that is not a directory yields nothing.
\<close>

definition find_packages :: "env \<Rightarrow> str list \<Rightarrow> str list" where
  "find_packages e exclude =
     (case stat e (lit ''.'') of
        Inr (Dir es) \<Rightarrow>
          find_iter ([lit ''ez_setup'', lit ''*__pycache__''] @ exclude) [lit ''*''] [] es
      | _ \<Rightarrow> [])"

section \<open>The descriptor and the script\<close>

text \<open>
  The keyword arguments of the call of \<open>setup\<close>; the argument \<open>keywords\<close> is the field
  \<open>key_words\<close>.
\<close>

record descriptor =
  name :: str
  version :: str
  description :: str
  long_description :: str
  long_description_content_type :: str
  url :: str
  author :: str
  author_email :: str
  license :: str
  classifiers :: "str list"
  key_words :: str
  packages :: "str list"
  install_requires :: "str list"
  include_package_data :: bool
  python_requires :: str
  zip_safe :: bool

text \<open>
  What the script does to the world, in order: it opens a file (by the path it passes to
  \<open>open\<close>), calls \<open>find_packages\<close>, calls \<open>setup\<close> with a descriptor.
\<close>

datatype event = Open str | FindPackages | Setup descriptor

text \<open>
  A step takes the events so far and returns its value, or the exception it raises, with
  the events extended. An exception ends the script: no statement of it has a handler.
\<close>

type_synonym 'a io = "event list \<Rightarrow> (error + 'a) \<times> event list"

definition io_bind :: "'a io \<Rightarrow> ('a \<Rightarrow> 'b io) \<Rightarrow> 'b io" where
  "io_bind m f = (\<lambda>tr. case m tr of (Inl err, tr') \<Rightarrow> (Inl err, tr') | (Inr x, tr') \<Rightarrow> f x tr')"

definition open_read :: "env \<Rightarrow> str \<Rightarrow> str io" where
  "open_read e p = (\<lambda>tr. (read_text e p, tr @ [Open p]))"

definition call_find_packages :: "env \<Rightarrow> str list \<Rightarrow> (str list) io" where
  "call_find_packages e exclude = (\<lambda>tr. (Inr (find_packages e exclude), tr @ [FindPackages]))"

text \<open>
  The packaging entry point is outside the repository: the call is recorded with its
  descriptor, and what the tool does with it is not modelled.
\<close>

definition call_setup :: "descriptor \<Rightarrow> unit io" where
  "call_setup d = (\<lambda>tr. (Inr (), tr @ [Setup d]))"

definition version_path :: "env \<Rightarrow> str" where
  "version_path e =
     abspath (cwd e)
       (join (join (dirname (script_file e)) (lit ''restless_quantum_volume''))
          (lit ''VERSION.txt''))"

definition README_PATH :: "env \<Rightarrow> str" where
  "README_PATH e = join (abspath (cwd e) (dirname (script_file e))) (lit ''README.md'')"

text \<open>
  The keyword arguments of the call, from the four values the script has computed when it
  reaches it.
\<close>

definition setup_kwargs :: "str list \<Rightarrow> str \<Rightarrow> str \<Rightarrow> str list \<Rightarrow> descriptor" where
  "setup_kwargs REQUIREMENTS ver README found =
     \<lparr>name = lit ''Restless Quantum Volume'',
      version = ver,
      description = lit ''A restless quantum volume experiment with restless analysisnd restless mixin for quantum volume'',
      long_description = README,
      long_description_content_type = lit ''text/markdown'',
      url = lit ''https://github.com/danielazaidenberg/Restless Quantum Volume'',
      author = lit ''Daniela Zaidenberg and Will Shanks'',
      author_email = lit ''Daniela.Zaidenberg@ibm.com and Will.Shanks@ibm.com'',
      license = lit ''Apache 2.0'',
      classifiers =
        [lit ''Environment :: Console'',
         lit ''License :: OSI Approved :: Apache Software License'',
         lit ''Intended Audience :: Developers'',
         lit ''Intended Audience :: Science/Research'',
         lit ''Operating System :: Microsoft :: Windows'',
         lit ''Operating System :: MacOS'',
         lit ''Operating System :: POSIX :: Linux'',
         lit ''Programming Language :: Python :: 3 :: Only'',
         lit ''Programming Language :: Python :: 3.7'',
         lit ''Programming Language :: Python :: 3.8'',
         lit ''Programming Language :: Python :: 3.9'',
         lit ''Programming Language :: Python :: 3.10'',
         lit ''Topic :: Scientific/Engineering''],
      key_words = lit ''qiskit experiments'',
      packages = found,
      install_requires = REQUIREMENTS,
      include_package_data = True,
      python_requires = lit ''>=3.7'',
      zip_safe = False\<rparr>"

text \<open>
  The module body of \<open>setup.py\<close>, run from an empty list of events: three reads, then
  the call, whose argument \<open>packages\<close> is evaluated on the way into it.
\<close>

definition script :: "env \<Rightarrow> (error + unit) \<times> event list" where
  "script e =
     io_bind (open_read e (lit ''requirements.txt'')) (\<lambda>f_read.
       let REQUIREMENTS = splitlines f_read in
       io_bind (open_read e (version_path e)) (\<lambda>fd_read.
         let version = rstrip fd_read in
         io_bind (open_read e (README_PATH e)) (\<lambda>README.
           io_bind (call_find_packages e [lit ''test*'']) (\<lambda>found.
             call_setup (setup_kwargs REQUIREMENTS version README found))))) []"

text \<open>How the run ended, and the descriptors handed to \<open>setup\<close> during it.\<close>

definition outcome :: "env \<Rightarrow> error + unit" where
  "outcome e = fst (script e)"

definition events :: "env \<Rightarrow> event list" where
  "events e = snd (script e)"

fun dispatched :: "event list \<Rightarrow> descriptor list" where
  "dispatched [] = []"
| "dispatched (Setup d # evs) = d # dispatched evs"
| "dispatched (ev # evs) = dispatched evs"

section \<open>The specification's words\<close>

text \<open>
  \<open>v\<close> is \<open>s\<close> with its trailing whitespace removed: a prefix of \<open>s\<close> that does not end
  in whitespace and is followed in \<open>s\<close> by whitespace only.
\<close>

definition trailing_whitespace_removed :: "str \<Rightarrow> str \<Rightarrow> bool" where
  "trailing_whitespace_removed s v \<longleftrightarrow>
     take (length v) s = v \<and> list_all isspace (drop (length v) s)
     \<and> (v = [] \<or> \<not> isspace (last v))"

text \<open>
  The file at the path \<open>p\<close> is absent: the path leads to no regular file, because a
  component of it does not exist, or lies below something that is not a directory, or
  because the path names a directory.
\<close>

definition absent :: "env \<Rightarrow> str \<Rightarrow> bool" where
  "absent e p =
     (case stat e p of
        Inr (File text) \<Rightarrow> False
      | Inr Unreadable \<Rightarrow> False
      | _ \<Rightarrow> True)"

text \<open>The non-empty lines of a text, in order.\<close>

definition nonempty_lines :: "str \<Rightarrow> str list" where
  "nonempty_lines s = filter (\<lambda>l. l \<noteq> []) (splitlines s)"

section \<open>Sample directories\<close>

text \<open>
  A project at \<open>/proj\<close> with the package \<open>restless_quantum_volume\<close> and its
  sub-package \<open>tests\<close>, beside an empty directory \<open>/work\<close>. Each of the three
  auxiliary files is a parameter: \<open>None\<close> leaves the file out.
\<close>

definition opt_entry :: "string \<Rightarrow> node option \<Rightarrow> (str \<times> node) list" where
  "opt_entry nm x = (case x of None \<Rightarrow> [] | Some n \<Rightarrow> [(lit nm, n)])"

definition sample_root :: "node option \<Rightarrow> node option \<Rightarrow> node option \<Rightarrow> node" where
  "sample_root req ver readme =
     Dir [(lit ''proj'',
           Dir (opt_entry ''requirements.txt'' req @ opt_entry ''README.md'' readme @
                [(lit ''setup.py'', File []),
                 (lit ''restless_quantum_volume'',
                  Dir (opt_entry ''VERSION.txt'' ver @
                       [(lit ''__init__.py'', File []),
                        (lit ''tests'', Dir [(lit ''__init__.py'', File [])])]))])),
          (lit ''work'', Dir [])]"

definition sample_env :: "node option \<Rightarrow> node option \<Rightarrow> node option \<Rightarrow> env" where
  "sample_env req ver readme =
     \<lparr>root = sample_root req ver readme, cwd = lit ''/proj'', script_file = lit ''setup.py''\<rparr>"

text \<open>What \<open>open\<close> and \<open>read\<close> return for a file of the sample project, at the path \<open>p\<close>.\<close>

fun open_result :: "node option \<Rightarrow> str \<Rightarrow> error + str" where
  "open_result None p = Inl (FileNotFoundError p)"
| "open_result (Some (File t)) p = Inr t"
| "open_result (Some Unreadable) p = Inl (PermissionError p)"
| "open_result (Some (Dir es)) p = Inl (IsADirectoryError p)"

text \<open>
  The texts of the well-formed project: a requirements file with a blank line between two
  specifiers, a version file ending in a newline, a one-line README.
\<close>

definition sample_requirements :: str where
  "sample_requirements = lit ''numpy\<newline>\<newline>qiskit-experiments\<newline>''"

definition sample_version :: str where
  "sample_version = lit ''1.2.3\<newline>''"

definition sample_readme :: str where
  "sample_readme = lit ''# Restless Quantum Volume''"

definition well_formed_env :: env where
  "well_formed_env =
     sample_env (Some (File sample_requirements)) (Some (File sample_version))
       (Some (File sample_readme))"

text \<open>The descriptor the script is to assemble in the well-formed project.\<close>

definition well_formed_descriptor :: descriptor where
  "well_formed_descriptor =
     setup_kwargs [lit ''numpy'', [], lit ''qiskit-experiments''] (lit ''1.2.3'') sample_readme
       [lit ''restless_quantum_volume'', lit ''restless_quantum_volume.tests'']"

text \<open>
  Variations of the project: a version file that holds a newline only; an empty
  requirements file; a README that may not be read; no version file; and a project where
  \<open>restless_quantum_volume\<close> is a regular file, so that there is no version file
  below it either.
\<close>

definition blank_version_env :: env where
  "blank_version_env =
     sample_env (Some (File sample_requirements)) (Some (File (lit ''\<newline>'')))
       (Some (File sample_readme))"

definition empty_requirements_env :: env where
  "empty_requirements_env =
     sample_env (Some (File [])) (Some (File sample_version)) (Some (File sample_readme))"


definition no_version_env :: env where
  "no_version_env = sample_env (Some (File sample_requirements)) None (Some (File sample_readme))"

definition package_is_file_env :: env where
  "package_is_file_env =
     \<lparr>root =
        Dir [(lit ''proj'',
              Dir [(lit ''requirements.txt'', File sample_requirements),
                   (lit ''README.md'', File sample_readme),
                   (lit ''setup.py'', File []),
                   (lit ''restless_quantum_volume'', File [])]),
             (lit ''work'', Dir [])],
      cwd = lit ''/proj'', script_file = lit ''setup.py''\<rparr>"

text \<open>
  The well-formed project with the script named by its absolute path and run from
  \<open>/work\<close>.
\<close>

definition other_cwd_env :: env where
  "other_cwd_env = well_formed_env\<lparr>cwd := lit ''/work'', script_file := lit ''/proj/setup.py''\<rparr>"

section \<open>The script, read by read\<close>

lemma script_eq:
  "script e =
     (case read_text e (lit ''requirements.txt'') of
        Inl err \<Rightarrow> (Inl err, [Open (lit ''requirements.txt'')])
      | Inr rt \<Rightarrow>
          (case read_text e (version_path e) of
             Inl err \<Rightarrow> (Inl err, [Open (lit ''requirements.txt''), Open (version_path e)])
           | Inr vt \<Rightarrow>
               (case read_text e (README_PATH e) of
                  Inl err \<Rightarrow>
                    (Inl err,
                     [Open (lit ''requirements.txt''), Open (version_path e),
                      Open (README_PATH e)])
                | Inr mt \<Rightarrow>
                    (Inr (),
                     [Open (lit ''requirements.txt''), Open (version_path e),
                      Open (README_PATH e), FindPackages,
                      Setup (setup_kwargs (splitlines rt) (rstrip vt) mt
                               (find_packages e [lit ''test*'']))]))))"
  by (simp add: script_def io_bind_def open_read_def call_find_packages_def call_setup_def
      split: sum.splits)

lemma dispatchedD:
  assumes "d \<in> set (dispatched (events e))"
  obtains rt vt mt where
    "read_text e (lit ''requirements.txt'') = Inr rt"
    "read_text e (version_path e) = Inr vt"
    "read_text e (README_PATH e) = Inr mt"
    "d = setup_kwargs (splitlines rt) (rstrip vt) mt (find_packages e [lit ''test*''])"
    "outcome e = Inr ()"
  using assms by (auto simp: events_def outcome_def script_eq split: sum.splits)

lemma script_ok:
  assumes "read_text e (lit ''requirements.txt'') = Inr rt"
    and "read_text e (version_path e) = Inr vt"
    and "read_text e (README_PATH e) = Inr mt"
  shows "outcome e = Inr ()"
    and "dispatched (events e)
           = [setup_kwargs (splitlines rt) (rstrip vt) mt (find_packages e [lit ''test*''])]"
  using assms by (simp_all add: outcome_def events_def script_eq)

lemma rstrip_decomp: "rstrip s @ rev (takeWhile isspace (rev s)) = s"
proof -
  have "rev (takeWhile isspace (rev s) @ dropWhile isspace (rev s)) = s"
    by simp
  then show ?thesis unfolding rstrip_def by (simp only: rev_append)
qed

lemma rstrip_last: "rstrip s = [] \<or> \<not> isspace (last (rstrip s))"
proof (cases "dropWhile isspace (rev s)")
  case Nil
  then show ?thesis by (simp add: rstrip_def)
next
  case (Cons c cs)
  then have "\<not> isspace c" by (metis hd_dropWhile list.sel(1) list.distinct(1))
  with Cons show ?thesis by (simp add: rstrip_def)
qed

lemma rstrip_removes: "trailing_whitespace_removed s (rstrip s)"
proof -
  let ?w = "rev (takeWhile isspace (rev s))"
  have s: "s = rstrip s @ ?w" by (simp add: rstrip_decomp)
  have "take (length (rstrip s)) s = rstrip s"
    by (subst s) simp
  moreover have "drop (length (rstrip s)) s = ?w"
    by (subst s) simp
  moreover have "list_all isspace ?w"
    by (simp add: list_all_iff) (metis set_takeWhileD)
  ultimately show ?thesis
    using rstrip_last by (simp add: trailing_whitespace_removed_def)
qed

lemma rstrip_append_space:
  "list_all isspace w \<Longrightarrow> (v = [] \<or> \<not> isspace (last v)) \<Longrightarrow> rstrip (v @ w) = v"
proof -
  assume w: "list_all isspace w" and v: "v = [] \<or> \<not> isspace (last v)"
  have "dropWhile isspace (rev w @ rev v) = dropWhile isspace (rev v)"
    using w by (intro dropWhile_append2) (simp add: list_all_iff)
  moreover have "dropWhile isspace (rev v) = rev v"
    using v by (cases v rule: rev_cases) auto
  ultimately show ?thesis by (simp add: rstrip_def)
qed

lemma removed_unique: "trailing_whitespace_removed s v \<Longrightarrow> v = rstrip s"
proof -
  assume a: "trailing_whitespace_removed s v"
  then have "s = v @ drop (length v) s"
    by (metis append_take_drop_id trailing_whitespace_removed_def)
  with a show ?thesis
    by (metis rstrip_append_space trailing_whitespace_removed_def)
qed

lemma rstrip_empty_iff: "rstrip s = [] \<longleftrightarrow> list_all isspace s"
  by (simp add: rstrip_def list_all_iff)


lemma splitlines_Nil: "splitlines [] = []"
  by (simp add: splitlines.simps)

lemma splitlines_break:
  "islinebreak c \<Longrightarrow>
     splitlines (c # s) =
       [] # (case s of [] \<Rightarrow> [] | d # r \<Rightarrow> if c = 13 \<and> d = 10 then splitlines r else splitlines s)"
  by (subst splitlines.simps) (simp split: list.splits)

lemma splitlines_char:
  "\<not> islinebreak c \<Longrightarrow>
     splitlines (c # s) = (case splitlines s of [] \<Rightarrow> [[c]] | l # ls \<Rightarrow> (c # l) # ls)"
  apply (subst splitlines.simps)
  apply (cases s)
   apply (simp add: splitlines_Nil)
  apply (subst (3) splitlines.simps)
  apply (simp add: Let_def)
  done

lemma splitlines_concat: "concat (splitlines s) = filter (\<lambda>c. \<not> islinebreak c) s"
proof (induction s rule: length_induct)
  case (1 s)
  show ?case
  proof (cases s)
    case Nil
    then show ?thesis by (simp add: splitlines_Nil)
  next
    case (Cons c t)
    show ?thesis
    proof (cases "islinebreak c")
      case False
      have "concat (splitlines t) = filter (\<lambda>c. \<not> islinebreak c) t"
        using 1 Cons by simp
      with False Cons show ?thesis
        by (simp add: splitlines_char split: list.splits) (metis concat.simps)
    next
      case True
      show ?thesis
      proof (cases t)
        case Nil
        with True Cons show ?thesis by (simp add: splitlines_break)
      next
        case (Cons d r)
        have "concat (splitlines t) = filter (\<lambda>c. \<not> islinebreak c) t"
          and "concat (splitlines r) = filter (\<lambda>c. \<not> islinebreak c) r"
          using 1 \<open>s = c # t\<close> Cons by simp_all
        moreover have "c = 13 \<and> d = 10 \<Longrightarrow> islinebreak d"
          by (simp add: islinebreak_def)
        ultimately show ?thesis
          using True \<open>s = c # t\<close> Cons by (auto simp: splitlines_break)
      qed
    qed
  qed
qed

lemma splitlines_line:
  assumes "\<forall>c\<in>set l. \<not> islinebreak c"
  shows "splitlines (l @ 10 # rest) = l # splitlines rest"
  using assms
proof (induction l)
  case Nil
  have "islinebreak 10" by (simp add: islinebreak_def)
  then show ?case by (simp add: splitlines_break splitlines_Nil split: list.splits)
next
  case (Cons c l)
  then show ?case by (simp add: splitlines_char)
qed

lemma splitlines_terminated:
  "\<forall>l\<in>set ls. \<forall>c\<in>set l. \<not> islinebreak c \<Longrightarrow>
     splitlines (concat (map (\<lambda>l. l @ [10]) ls)) = ls"
  by (induction ls) (simp_all add: splitlines_Nil splitlines_line)

section \<open>What the finder leaves out\<close>

lemma fnmatchcase_star: "fnmatchcase s [42] = True"
  by (induction s) simp_all




section \<open>The sample directories evaluated\<close>

lemmas path_defs = abspath_def join_def dirname_def normpath_def startswith_def endswith_def
  isabs_def split_def norm_step_def lit_def rstrip_chars_def

lemma sample_version_path:
  "version_path (sample_env req ver readme) = lit ''/proj/restless_quantum_volume/VERSION.txt''"
  by (simp add: version_path_def sample_env_def path_defs)

lemma sample_README_PATH: "README_PATH (sample_env req ver readme) = lit ''/proj/README.md''"
  by (simp add: README_PATH_def sample_env_def path_defs)

lemma sample_read_requirements:
  "read_text (sample_env req ver readme) (lit ''requirements.txt'')
     = open_result req (lit ''requirements.txt'')"
  by (cases "(req, lit ''requirements.txt'')" rule: open_result.cases; cases readme)
     (simp_all add: read_text_def stat_def sample_env_def sample_root_def opt_entry_def
        isabs_def startswith_def split_def lit_def)

lemma sample_read_version:
  "read_text (sample_env req ver readme) (lit ''/proj/restless_quantum_volume/VERSION.txt'')
     = open_result ver (lit ''/proj/restless_quantum_volume/VERSION.txt'')"
  by (cases "(ver, lit ''requirements.txt'')" rule: open_result.cases;
      cases req; cases readme)
     (simp_all add: read_text_def stat_def sample_env_def sample_root_def opt_entry_def
        isabs_def startswith_def split_def lit_def)

lemma sample_read_readme:
  "read_text (sample_env req ver readme) (lit ''/proj/README.md'')
     = open_result readme (lit ''/proj/README.md'')"
  by (cases "(readme, lit ''requirements.txt'')" rule: open_result.cases; cases req)
     (simp_all add: read_text_def stat_def sample_env_def sample_root_def opt_entry_def
        isabs_def startswith_def split_def lit_def)

lemma sample_stat_no_version:
  "stat (sample_env req None readme) (lit ''/proj/restless_quantum_volume/VERSION.txt'') = Inl ENOENT"
  by (cases req; cases readme)
     (simp_all add: read_text_def stat_def sample_env_def sample_root_def opt_entry_def
        isabs_def startswith_def split_def lit_def)

lemma well_formed_reads:
  "read_text well_formed_env (lit ''requirements.txt'') = Inr sample_requirements"
  "read_text well_formed_env (version_path well_formed_env) = Inr sample_version"
  "read_text well_formed_env (README_PATH well_formed_env) = Inr sample_readme"
  by (simp_all add: well_formed_env_def sample_version_path sample_README_PATH
      sample_read_requirements sample_read_version sample_read_readme)

lemma tests_dir:
    "find_iter ex inc (lit ''restless_quantum_volume.tests'') [(lit ''__init__.py'', File [])] = []"
    by (subst find_iter.simps) (simp add: lit_def)


lemma match_evals:
  "\<not> filter_call [lit ''ez_setup'', lit ''*__pycache__'', lit ''test*''] (lit ''restless_quantum_volume'')"
  "\<not> filter_call [lit ''ez_setup'', lit ''*__pycache__'', lit ''test*''] (lit ''restless_quantum_volume.tests'')"
  "filter_call [lit ''*''] p"
  by (simp_all add: filter_call_def lit_def fnmatchcase_star)


lemma pkg_dir:
    "find_iter [lit ''ez_setup'', lit ''*__pycache__'', lit ''test*''] [lit ''*'']
       (lit ''restless_quantum_volume'')
       (opt_entry ''VERSION.txt'' ver @
        [(lit ''__init__.py'', File []), (lit ''tests'', Dir [(lit ''__init__.py'', File [])])])
     = [lit ''restless_quantum_volume.tests'']"
proof -
  have nm: "package_name (lit ''restless_quantum_volume'') (lit ''tests'') = lit ''restless_quantum_volume.tests''"
    by (simp add: package_name_def lit_def)
  have valid: "filter (\<lambda>(d, n). 46 \<notin> set d \<and> looks_like_package n) (opt_entry ''VERSION.txt'' ver @
        [(lit ''__init__.py'', File []), (lit ''tests'', Dir [(lit ''__init__.py'', File [])])])
     = [(lit ''tests'', Dir [(lit ''__init__.py'', File [])])]"
    by (cases ver) (simp_all add: opt_entry_def looks_like_package_def lit_def)
  show ?thesis
    apply (subst find_iter.simps)
    apply (simp only: valid Let_def)
    apply (simp add: nm match_evals tests_dir)
    done
qed


lemma sample_find_packages:
  "find_packages (sample_env req ver readme) [lit ''test*'']
     = [lit ''restless_quantum_volume'', lit ''restless_quantum_volume.tests'']"
proof -
  let ?pkg = "Dir (opt_entry ''VERSION.txt'' ver @
                   [(lit ''__init__.py'', File []),
                    (lit ''tests'', Dir [(lit ''__init__.py'', File [])])])"
  let ?top = "opt_entry ''requirements.txt'' req @ opt_entry ''README.md'' readme @
                [(lit ''setup.py'', File []), (lit ''restless_quantum_volume'', ?pkg)]"
  have nm: "package_name [] (lit ''restless_quantum_volume'') = lit ''restless_quantum_volume''"
    by (simp add: package_name_def lit_def)
  have looks: "looks_like_package ?pkg"
    by (cases ver) (simp_all add: opt_entry_def looks_like_package_def lit_def)
  have valid:
    "filter (\<lambda>(d, n). 46 \<notin> set d \<and> looks_like_package n) ?top
       = [(lit ''restless_quantum_volume'', ?pkg)]"
    using looks
    by (cases req; cases readme)
       (simp_all add: opt_entry_def lit_def looks_like_package_def[of "File t" for t]
          looks_like_package_def[of Unreadable])
  have kept:
    "lit ''restless_quantum_volume'' @ lit ''*''
       \<notin> set [lit ''ez_setup'', lit ''*__pycache__'', lit ''test*'']"
    "lit ''restless_quantum_volume'' @ lit ''.*''
       \<notin> set [lit ''ez_setup'', lit ''*__pycache__'', lit ''test*'']"
    by (simp_all add: lit_def)
  have here: "stat (sample_env req ver readme) (lit ''.'') = Inr (Dir ?top)"
    by (simp add: stat_def sample_env_def sample_root_def isabs_def startswith_def split_def
        lit_def)
  have "find_iter [lit ''ez_setup'', lit ''*__pycache__'', lit ''test*''] [lit ''*''] [] ?top
          = [lit ''restless_quantum_volume'', lit ''restless_quantum_volume.tests'']"
    apply (subst find_iter.simps)
    apply (simp only: valid Let_def)
    using kept apply (simp add: nm match_evals pkg_dir)
    done
  with here show ?thesis
    by (simp add: find_packages_def)
qed

lemma read_text_absolute:
  "isabs p \<Longrightarrow> root e1 = root e2 \<Longrightarrow> read_text e1 p = read_text e2 p"
  by (simp add: read_text_def stat_def)

lemma sample_splitlines:
  "splitlines sample_requirements = [lit ''numpy'', [], lit ''qiskit-experiments'']"
  by (simp add: sample_requirements_def lit_def splitlines_break splitlines_char splitlines_Nil
      islinebreak_def)

lemma sample_rstrip: "rstrip sample_version = lit ''1.2.3''"
  by (simp add: sample_version_def rstrip_def lit_def isspace_def)

lemma well_formed_dispatched: "dispatched (events well_formed_env) = [well_formed_descriptor]"
  using script_ok(2)[OF well_formed_reads]
  by (simp add: sample_splitlines sample_rstrip well_formed_descriptor_def
      sample_find_packages well_formed_env_def)

lemma other_cwd_paths:
  "version_path other_cwd_env = lit ''/proj/restless_quantum_volume/VERSION.txt''"
  "README_PATH other_cwd_env = lit ''/proj/README.md''"
  "abspath (cwd other_cwd_env) (dirname (script_file other_cwd_env)) = lit ''/proj''"
  by (simp_all add: other_cwd_env_def well_formed_env_def sample_env_def version_path_def
      README_PATH_def path_defs)

lemma other_cwd_requirements:
  "read_text other_cwd_env (lit ''requirements.txt'')
     = Inl (FileNotFoundError (lit ''requirements.txt''))"
  by (simp add: other_cwd_env_def well_formed_env_def sample_env_def sample_root_def
      opt_entry_def read_text_def stat_def isabs_def startswith_def split_def lit_def)

lemma other_cwd_reads:
  "read_text other_cwd_env (lit ''/proj/requirements.txt'') = Inr sample_requirements"
  "read_text other_cwd_env (version_path other_cwd_env) = Inr sample_version"
  "read_text other_cwd_env (README_PATH other_cwd_env) = Inr sample_readme"
proof -
  have same: "read_text other_cwd_env p = read_text well_formed_env p" if "isabs p" for p
    using that by (rule read_text_absolute) (simp add: other_cwd_env_def)
  have abs: "isabs (lit ''/proj/requirements.txt'')"
    "isabs (lit ''/proj/restless_quantum_volume/VERSION.txt'')" "isabs (lit ''/proj/README.md'')"
    by (simp_all add: isabs_def startswith_def lit_def)
  show "read_text other_cwd_env (version_path other_cwd_env) = Inr sample_version"
    using well_formed_reads(2)
    by (simp add: other_cwd_paths same abs well_formed_env_def sample_version_path)
  show "read_text other_cwd_env (README_PATH other_cwd_env) = Inr sample_readme"
    using well_formed_reads(3)
    by (simp add: other_cwd_paths same abs well_formed_env_def sample_README_PATH)
  show "read_text other_cwd_env (lit ''/proj/requirements.txt'') = Inr sample_requirements"
    by (simp add: same abs)
       (simp add: well_formed_env_def sample_env_def sample_root_def
         opt_entry_def read_text_def stat_def isabs_def startswith_def split_def lit_def)
qed

section \<open>The claims\<close>

text \<open>
  Claim C1, as the code has it. When the three files are read, the run hands one
  descriptor to the packaging entry point, and its \<open>install_requires\<close> is the sequence
  of all the lines of the requirements text, in the order of the text, a blank line
  included as an empty specifier. The lines are split at the line boundaries and nothing
  else is done to them: their characters are those of the text without its boundaries,
  and a text made of lines that each end in a newline gives back exactly those lines.
  When the text has no blank line, the field is the sequence of its non-empty lines.
\<close>
theorem install_requires_all_lines:
  assumes "read_text e (lit ''requirements.txt'') = Inr rt"
    and "read_text e (version_path e) = Inr vt"
    and "read_text e (README_PATH e) = Inr mt"
  shows "\<exists>d. dispatched (events e) = [d]
           \<and> install_requires d = splitlines rt
           \<and> concat (install_requires d) = filter (\<lambda>c. \<not> islinebreak c) rt
           \<and> (\<forall>ls. (\<forall>l\<in>set ls. \<forall>c\<in>set l. \<not> islinebreak c)
                     \<and> rt = concat (map (\<lambda>l. l @ [10]) ls)
                   \<longrightarrow> install_requires d = ls)
           \<and> filter (\<lambda>l. l \<noteq> []) (install_requires d) = nonempty_lines rt
           \<and> ([] \<notin> set (splitlines rt) \<longrightarrow> install_requires d = nonempty_lines rt)"
proof -
  have "filter (\<lambda>l. l \<noteq> []) (splitlines rt) = splitlines rt" if "[] \<notin> set (splitlines rt)"
    using that by (intro filter_True) blast
  then show ?thesis
    using script_ok(2)[OF assms]
    by (auto simp: setup_kwargs_def splitlines_concat splitlines_terminated nonempty_lines_def)
qed

theorem install_requires_all_lines_witness:
  "read_text well_formed_env (lit ''requirements.txt'') = Inr sample_requirements
   \<and> read_text well_formed_env (version_path well_formed_env) = Inr sample_version
   \<and> read_text well_formed_env (README_PATH well_formed_env) = Inr sample_readme
   \<and> (\<exists>d. dispatched (events well_formed_env) = [d]
          \<and> install_requires d = [lit ''numpy'', [], lit ''qiskit-experiments''])"
  using install_requires_all_lines[OF well_formed_reads] well_formed_reads
  by (auto simp: sample_splitlines)

text \<open>
  The sequence of the non-empty lines, which the specification names, is another one as
  soon as the requirements file has a blank line: in the sample project the field has
  three entries, the second one empty, and the file has two non-empty lines.
\<close>

theorem install_requires_nonempty_lines_counterexample:
  "read_text well_formed_env (lit ''requirements.txt'')
     = Inr (lit ''numpy\<newline>\<newline>qiskit-experiments\<newline>'')
   \<and> read_text well_formed_env (version_path well_formed_env) = Inr (lit ''1.2.3\<newline>'')
   \<and> read_text well_formed_env (README_PATH well_formed_env)
       = Inr (lit ''# Restless Quantum Volume'')
   \<and> map install_requires (dispatched (events well_formed_env))
       = [[lit ''numpy'', [], lit ''qiskit-experiments'']]
   \<and> nonempty_lines (lit ''numpy\<newline>\<newline>qiskit-experiments\<newline>'')
       = [lit ''numpy'', lit ''qiskit-experiments'']
   \<and> map install_requires (dispatched (events well_formed_env))
       \<noteq> [nonempty_lines (lit ''numpy\<newline>\<newline>qiskit-experiments\<newline>'')]"
proof -
  have "nonempty_lines sample_requirements = [lit ''numpy'', lit ''qiskit-experiments'']"
    by (simp add: nonempty_lines_def sample_splitlines) (simp add: lit_def)
  moreover have "map install_requires (dispatched (events well_formed_env))
       = [[lit ''numpy'', [], lit ''qiskit-experiments'']]"
    by (simp add: well_formed_dispatched well_formed_descriptor_def setup_kwargs_def)
  ultimately show ?thesis
    using well_formed_reads
    by (simp add: sample_requirements_def sample_version_def sample_readme_def)
qed

text \<open>
  Claim C2 says that the requirements file, the version file and the README are all
  looked up in the directory of the script. The script builds the paths of the version
  file and the README from \<open>__file__\<close>, but opens \<open>requirements.txt\<close> by its bare
  name, which is looked up in the working directory. Run in \<open>/work\<close> with the script
  at \<open>/proj/setup.py\<close>, it computes \<open>/proj\<close> as the directory of the script and the
  two other paths inside it, where both files are read; \<open>/proj/requirements.txt\<close>
  is there as well, and yet the first \<open>open\<close> raises \<open>FileNotFoundError\<close> and the
  run ends on it.
\<close>
theorem requirements_resolved_in_cwd:
  "abspath (cwd other_cwd_env) (dirname (script_file other_cwd_env)) = lit ''/proj''
   \<and> cwd other_cwd_env = lit ''/work''
   \<and> read_text other_cwd_env (lit ''/proj/requirements.txt'') = Inr sample_requirements
   \<and> version_path other_cwd_env = lit ''/proj/restless_quantum_volume/VERSION.txt''
   \<and> read_text other_cwd_env (version_path other_cwd_env) = Inr sample_version
   \<and> README_PATH other_cwd_env = lit ''/proj/README.md''
   \<and> read_text other_cwd_env (README_PATH other_cwd_env) = Inr sample_readme
   \<and> script other_cwd_env
       = (Inl (FileNotFoundError (lit ''requirements.txt'')), [Open (lit ''requirements.txt'')])"
  using other_cwd_paths other_cwd_reads other_cwd_requirements
  by (simp add: script_eq) (simp add: other_cwd_env_def)

text \<open>
  Claim C3. Whatever text the version file holds, the \<open>version\<close> of the descriptor is
  that text with its trailing whitespace removed (and it is the only string that is);
  for the text \<open>1.2.3\<close> followed by a newline it is exactly \<open>1.2.3\<close>.
\<close>

theorem version_is_stripped:
  assumes "read_text e (lit ''requirements.txt'') = Inr rt"
    and "read_text e (version_path e) = Inr vt"
    and "read_text e (README_PATH e) = Inr mt"
  shows "\<exists>d. dispatched (events e) = [d]
           \<and> version d = rstrip vt
           \<and> (\<forall>v. trailing_whitespace_removed vt v \<longleftrightarrow> v = version d)
           \<and> (vt = lit ''1.2.3\<newline>'' \<longrightarrow> version d = lit ''1.2.3'')"
proof -
  have "rstrip (lit ''1.2.3\<newline>'') = lit ''1.2.3''"
    by (simp add: rstrip_def lit_def isspace_def)
  moreover have "\<forall>v. trailing_whitespace_removed vt v \<longleftrightarrow> v = rstrip vt"
    using rstrip_removes removed_unique by blast
  ultimately show ?thesis
    using script_ok(2)[OF assms] by (simp add: setup_kwargs_def)
qed

theorem version_is_stripped_witness:
  "read_text well_formed_env (lit ''requirements.txt'') = Inr sample_requirements
   \<and> read_text well_formed_env (version_path well_formed_env) = Inr (lit ''1.2.3\<newline>'')
   \<and> read_text well_formed_env (README_PATH well_formed_env) = Inr sample_readme
   \<and> (\<exists>d. dispatched (events well_formed_env) = [d] \<and> version d = lit ''1.2.3'')"
  using version_is_stripped[OF well_formed_reads] well_formed_reads
  by (auto simp: sample_version_def)

text \<open>
  Claim C4, as the code has it. When the version file is absent, the run ends in an
  error and no descriptor reaches the packaging entry point. Once \<open>requirements.txt\<close>
  has been read, the run consists of the two \<open>open\<close> calls and its error is that of
  opening the version path: \<open>FileNotFoundError\<close> when a component of the path does
  not exist, \<open>NotADirectoryError\<close> when a component of it is not a directory,
  \<open>IsADirectoryError\<close> when the path names a directory. When \<open>requirements.txt\<close>
  cannot be read, its own error ends the run before the version file is tried.
\<close>
theorem missing_version_aborts:
  assumes "absent e (version_path e)"
  shows "(\<exists>err. outcome e = Inl err)
         \<and> dispatched (events e) = []
         \<and> (\<forall>rt. read_text e (lit ''requirements.txt'') = Inr rt
                \<longrightarrow> events e = [Open (lit ''requirements.txt''), Open (version_path e)]
                    \<and> (stat e (version_path e) = Inl ENOENT
                         \<longrightarrow> outcome e = Inl (FileNotFoundError (version_path e)))
                    \<and> (stat e (version_path e) = Inl ENOTDIR
                         \<longrightarrow> outcome e = Inl (NotADirectoryError (version_path e)))
                    \<and> ((\<exists>es. stat e (version_path e) = Inr (Dir es))
                         \<longrightarrow> outcome e = Inl (IsADirectoryError (version_path e))))
         \<and> (\<forall>err. read_text e (lit ''requirements.txt'') = Inl err \<longrightarrow> outcome e = Inl err)"
proof -
  have "\<exists>err. read_text e (version_path e) = Inl err
          \<and> (stat e (version_path e) = Inl ENOENT
                \<longrightarrow> err = FileNotFoundError (version_path e))
          \<and> (stat e (version_path e) = Inl ENOTDIR
                \<longrightarrow> err = NotADirectoryError (version_path e))
          \<and> ((\<exists>es. stat e (version_path e) = Inr (Dir es))
                \<longrightarrow> err = IsADirectoryError (version_path e))"
  proof (cases "stat e (version_path e)")
    case (Inl en)
    then show ?thesis by (cases en) (simp_all add: read_text_def)
  next
    case (Inr n)
    with assms show ?thesis by (cases n) (simp_all add: absent_def read_text_def)
  qed
  then obtain err where "read_text e (version_path e) = Inl err"
    and "stat e (version_path e) = Inl ENOENT \<longrightarrow> err = FileNotFoundError (version_path e)"
    and "stat e (version_path e) = Inl ENOTDIR \<longrightarrow> err = NotADirectoryError (version_path e)"
    and "(\<exists>es. stat e (version_path e) = Inr (Dir es))
           \<longrightarrow> err = IsADirectoryError (version_path e)"
    by blast
  then show ?thesis
    by (auto simp: outcome_def events_def script_eq split: sum.splits)
qed

theorem missing_version_aborts_witness:
  "absent no_version_env (version_path no_version_env)
   \<and> stat no_version_env (version_path no_version_env) = Inl ENOENT
   \<and> read_text no_version_env (lit ''requirements.txt'') = Inr sample_requirements
   \<and> outcome no_version_env
       = Inl (FileNotFoundError (lit ''/proj/restless_quantum_volume/VERSION.txt''))
   \<and> dispatched (events no_version_env) = []"
proof -
  have missing: "stat no_version_env (version_path no_version_env) = Inl ENOENT"
    by (simp add: no_version_env_def sample_version_path sample_stat_no_version)
  then have absent: "absent no_version_env (version_path no_version_env)"
    by (simp add: absent_def)
  have "read_text no_version_env (lit ''requirements.txt'') = Inr sample_requirements"
    by (simp add: no_version_env_def sample_read_requirements)
  with missing_version_aborts[OF absent] absent missing show ?thesis
    by (simp add: no_version_env_def sample_version_path)
qed

text \<open>
  Where \<open>restless_quantum_volume\<close> is a regular file, the version file is absent and
  nothing else is wrong: \<open>requirements.txt\<close> is read, and the run ends on the second
  \<open>open\<close> in a \<open>NotADirectoryError\<close>, not in a \<open>FileNotFoundError\<close>.
\<close>

theorem missing_version_error_counterexample:
  "version_path package_is_file_env = lit ''/proj/restless_quantum_volume/VERSION.txt''
   \<and> absent package_is_file_env (lit ''/proj/restless_quantum_volume/VERSION.txt'')
   \<and> read_text package_is_file_env (lit ''requirements.txt'') = Inr sample_requirements
   \<and> script package_is_file_env
       = (Inl (NotADirectoryError (lit ''/proj/restless_quantum_volume/VERSION.txt'')),
          [Open (lit ''requirements.txt''),
           Open (lit ''/proj/restless_quantum_volume/VERSION.txt'')])"
proof -
  have path: "version_path package_is_file_env = lit ''/proj/restless_quantum_volume/VERSION.txt''"
    by (simp add: version_path_def package_is_file_env_def path_defs)
  have stat: "stat package_is_file_env (lit ''/proj/restless_quantum_volume/VERSION.txt'')
                = Inl ENOTDIR"
    by (simp add: package_is_file_env_def stat_def isabs_def startswith_def split_def lit_def)
  have req: "read_text package_is_file_env (lit ''requirements.txt'') = Inr sample_requirements"
    by (simp add: package_is_file_env_def read_text_def stat_def isabs_def startswith_def
        split_def lit_def)
  have "read_text package_is_file_env (lit ''/proj/restless_quantum_volume/VERSION.txt'')
          = Inl (NotADirectoryError (lit ''/proj/restless_quantum_volume/VERSION.txt''))"
    using stat by (simp add: read_text_def)
  with path stat req show ?thesis
    by (simp add: script_eq absent_def)
qed

text \<open>
  Claim C5, as the code has it. The \<open>version\<close> of every descriptor handed to the
  packaging entry point does not end in whitespace; it is non-empty exactly when the
  version file holds a character that is not whitespace.
\<close>
theorem version_trimmed:
  assumes "d \<in> set (dispatched (events e))"
  shows "(version d = [] \<or> \<not> isspace (last (version d)))
         \<and> (\<forall>vt. read_text e (version_path e) = Inr vt
                \<longrightarrow> (version d \<noteq> [] \<longleftrightarrow> (\<exists>c\<in>set vt. \<not> isspace c)))"
proof -
  from assms obtain rt vt mt where vt: "read_text e (version_path e) = Inr vt"
    and d: "d = setup_kwargs (splitlines rt) (rstrip vt) mt (find_packages e [lit ''test*''])"
    by (rule dispatchedD)
  have "version d = rstrip vt" by (simp add: d setup_kwargs_def)
  then show ?thesis
    using rstrip_last[of vt] rstrip_empty_iff[of vt] vt by (auto simp: list_all_iff)
qed

theorem version_trimmed_witness:
  "well_formed_descriptor \<in> set (dispatched (events well_formed_env))
   \<and> read_text well_formed_env (version_path well_formed_env) = Inr sample_version
   \<and> version well_formed_descriptor = lit ''1.2.3''
   \<and> \<not> isspace (last (version well_formed_descriptor))
   \<and> (\<exists>c\<in>set sample_version. \<not> isspace c)"
proof -
  have d: "well_formed_descriptor \<in> set (dispatched (events well_formed_env))"
    by (simp add: well_formed_dispatched)
  have v: "version well_formed_descriptor = lit ''1.2.3''"
    by (simp add: well_formed_descriptor_def setup_kwargs_def)
  then have "version well_formed_descriptor \<noteq> []"
    by (simp add: lit_def)
  with d v version_trimmed[OF d] well_formed_reads(2) show ?thesis by auto
qed

text \<open>
  A version file that holds a single newline is read without error, and the descriptor
  handed over has the empty version.
\<close>

theorem version_nonempty_counterexample:
  "read_text blank_version_env (version_path blank_version_env) = Inr (lit ''\<newline>'')
   \<and> outcome blank_version_env = Inr ()
   \<and> map version (dispatched (events blank_version_env)) = [[]]"
proof -
  have reads:
    "read_text blank_version_env (lit ''requirements.txt'') = Inr sample_requirements"
    "read_text blank_version_env (version_path blank_version_env) = Inr (lit ''\<newline>'')"
    "read_text blank_version_env (README_PATH blank_version_env) = Inr sample_readme"
    by (simp_all add: blank_version_env_def sample_version_path sample_README_PATH
        sample_read_requirements sample_read_version sample_read_readme)
  have "rstrip (lit ''\<newline>'') = []"
    by (simp add: rstrip_def lit_def isspace_def)
  then show ?thesis
    using script_ok[OF reads] reads(2) by (simp add: setup_kwargs_def)
qed




text \<open>
  Claim C7. With an empty requirements file, every descriptor handed to the packaging
  entry point has an empty \<open>install_requires\<close>, and the empty file raises nothing:
  an error of the run is the error of opening the version file or the README, and when
  both of these are read the run ends normally with one descriptor, whose
  \<open>install_requires\<close> is empty.
\<close>
theorem empty_requirements_accepted:
  assumes "read_text e (lit ''requirements.txt'') = Inr []"
  shows "(\<forall>d\<in>set (dispatched (events e)). install_requires d = [])
         \<and> (\<forall>err. outcome e = Inl err
                \<longrightarrow> read_text e (version_path e) = Inl err
                    \<or> read_text e (README_PATH e) = Inl err)
         \<and> (\<forall>vt mt. read_text e (version_path e) = Inr vt
                    \<and> read_text e (README_PATH e) = Inr mt
                  \<longrightarrow> outcome e = Inr ()
                      \<and> map install_requires (dispatched (events e)) = [[]])"
  using assms
  by (auto simp: outcome_def events_def script_eq setup_kwargs_def splitlines_Nil
      split: sum.splits)

theorem empty_requirements_accepted_witness:
  "read_text empty_requirements_env (lit ''requirements.txt'') = Inr []
   \<and> outcome empty_requirements_env = Inr ()
   \<and> map install_requires (dispatched (events empty_requirements_env)) = [[]]"
proof -
  have reads:
    "read_text empty_requirements_env (lit ''requirements.txt'') = Inr []"
    "read_text empty_requirements_env (version_path empty_requirements_env) = Inr sample_version"
    "read_text empty_requirements_env (README_PATH empty_requirements_env) = Inr sample_readme"
    by (simp_all add: empty_requirements_env_def sample_version_path sample_README_PATH
        sample_read_requirements sample_read_version sample_read_readme)
  with empty_requirements_accepted[OF reads(1)] show ?thesis by blast
qed



text \<open>
  Claim C10. The static fields of the descriptor do not depend on the three files:
  whatever texts the requirements, version and README files hold, the run hands exactly
  one descriptor to the packaging entry point, and it has the name
  \<open>Restless Quantum Volume\<close>, the license \<open>Apache 2.0\<close>, the content type
  \<open>text/markdown\<close>, the keywords \<open>qiskit experiments\<close>, \<open>python_requires\<close>
  \<open>>=3.7\<close>, \<open>include_package_data\<close> true, \<open>zip_safe\<close> false and the
  thirteen classifiers of the script, in its order.
\<close>

theorem static_metadata_constant:
  assumes "read_text e (lit ''requirements.txt'') = Inr rt"
    and "read_text e (version_path e) = Inr vt"
    and "read_text e (README_PATH e) = Inr mt"
  shows "\<exists>d. dispatched (events e) = [d]
           \<and> name d = lit ''Restless Quantum Volume''
           \<and> license d = lit ''Apache 2.0''
           \<and> long_description_content_type d = lit ''text/markdown''
           \<and> key_words d = lit ''qiskit experiments''
           \<and> python_requires d = lit ''>=3.7''
           \<and> include_package_data d = True
           \<and> zip_safe d = False
           \<and> classifiers d =
               [lit ''Environment :: Console'',
                lit ''License :: OSI Approved :: Apache Software License'',
                lit ''Intended Audience :: Developers'',
                lit ''Intended Audience :: Science/Research'',
                lit ''Operating System :: Microsoft :: Windows'',
                lit ''Operating System :: MacOS'',
                lit ''Operating System :: POSIX :: Linux'',
                lit ''Programming Language :: Python :: 3 :: Only'',
                lit ''Programming Language :: Python :: 3.7'',
                lit ''Programming Language :: Python :: 3.8'',
                lit ''Programming Language :: Python :: 3.9'',
                lit ''Programming Language :: Python :: 3.10'',
                lit ''Topic :: Scientific/Engineering'']"
  using script_ok(2)[OF assms] by (simp add: setup_kwargs_def)

theorem static_metadata_constant_witness:
  "read_text well_formed_env (lit ''requirements.txt'') = Inr sample_requirements
   \<and> read_text well_formed_env (version_path well_formed_env) = Inr sample_version
   \<and> read_text well_formed_env (README_PATH well_formed_env) = Inr sample_readme
   \<and> (\<exists>d. dispatched (events well_formed_env) = [d]
           \<and> name d = lit ''Restless Quantum Volume''
           \<and> license d = lit ''Apache 2.0''
           \<and> python_requires d = lit ''>=3.7'')"
  using static_metadata_constant[OF well_formed_reads] well_formed_reads by auto

end
